theory Spec2Isabelle
  imports Complex_Main
begin

section \<open>Conventions of the embedding\<close>

text \<open>
  The Python sources compute with \<open>float\<close> and \<open>datetime\<close>. A \<open>float\<close> is modelled as
  an exact \<open>real\<close> (no rounding error, no NaN, no infinities); a \<open>datetime\<close> is modelled as
  a \<open>real\<close> number of seconds since the epoch in UTC, and a \<open>timedelta\<close> as a \<open>real\<close>
  number of seconds. Every read of the clock (\<open>datetime.utcnow()\<close>) is an explicit
  argument \<open>now\<close>; the reads made inside one call are taken at the same instant.
  Mutation of \<open>self\<close> is explicit state passing, and an exception is a value \<open>Inl e\<close>.
  Logging is not modelled.
\<close>

datatype py_error = ZeroDivisionError

text \<open>
  The slice \<open>xs[s:]\<close> of Python, for any integer \<open>s\<close>: a negative start counts from the
  end and is clipped at the front, a non-negative one is clipped at the end.
\<close>

definition slice_from :: "int \<Rightarrow> 'a list \<Rightarrow> 'a list" where
  "slice_from s xs =
     (let n = int (length xs)
      in drop (nat (if s < 0 then max (n + s) 0 else min s n)) xs)"

section \<open>price\_feeds/models.py\<close>

datatype PriceSource = CHAINLINK_SCRAPE | CHAINLINK_ONCHAIN | CHAINLINK_API | POLYMARKET

record PriceData =
  pd_symbol :: string
  pd_price :: real
  pd_timestamp :: real
  pd_source :: PriceSource
  pd_confidence :: real
  volume_24h :: "real option"
  change_24h_pct :: "real option"
  high_24h :: "real option"
  low_24h :: "real option"

definition age_seconds :: "real \<Rightarrow> PriceData \<Rightarrow> real" where
  "age_seconds now pd = now - pd_timestamp pd"

definition is_stale :: "real \<Rightarrow> PriceData \<Rightarrow> real \<Rightarrow> bool" where
  "is_stale now pd max_age_seconds \<longleftrightarrow> age_seconds now pd > max_age_seconds"

record PriceFeed =
  pf_symbol :: string
  current_price :: "PriceData option"
  price_history :: "PriceData list"
  max_history_size :: int

text \<open>\<open>PriceFeed(symbol=symbol)\<close>: the dataclass defaults.\<close>

definition new_feed :: "string \<Rightarrow> PriceFeed" where
  "new_feed symb =
     \<lparr>pf_symbol = symb, current_price = None, price_history = [], max_history_size = 1000\<rparr>"

text \<open>\<open>PriceFeed.update\<close>: set the current price, append, trim with \<open>history[-max:]\<close>.\<close>

definition update :: "PriceData \<Rightarrow> PriceFeed \<Rightarrow> PriceFeed" where
  "update price_data f =
     (let h = price_history f @ [price_data]
      in f\<lparr>current_price := Some price_data,
            price_history :=
              (if int (length h) > max_history_size f
               then slice_from (- max_history_size f) h else h)\<rparr>)"

text \<open>A sequence of \<open>update\<close> calls, in arrival order.\<close>

fun updates :: "PriceFeed \<Rightarrow> PriceData list \<Rightarrow> PriceFeed" where
  "updates f [] = f"
| "updates f (pd # pds) = updates (update pd f) pds"

record PriceLag =
  lag_symbol :: string
  oracle_price :: real
  polymarket_price :: real
  oracle_timestamp :: real
  polymarket_timestamp :: real
  lag_seconds :: real
  price_difference_pct :: real

definition is_profitable :: "PriceLag \<Rightarrow> bool" where
  "is_profitable lag \<longleftrightarrow> lag_seconds lag \<ge> 10 \<and> \<bar>price_difference_pct lag\<bar> \<ge> 3 / 10"

section \<open>price\_feeds/price\_manager.py\<close>

record PriceManager =
  oracle_feeds :: "string \<rightharpoonup> PriceFeed"
  polymarket_feeds :: "string \<rightharpoonup> PriceFeed"

definition get_oracle_price :: "PriceManager \<Rightarrow> string \<Rightarrow> PriceData option" where
  "get_oracle_price pm symb =
     (case oracle_feeds pm symb of None \<Rightarrow> None | Some feed \<Rightarrow> current_price feed)"

definition get_polymarket_price :: "PriceManager \<Rightarrow> string \<Rightarrow> PriceData option" where
  "get_polymarket_price pm symb =
     (case polymarket_feeds pm symb of None \<Rightarrow> None | Some feed \<Rightarrow> current_price feed)"

text \<open>
  The reading both \<open>get_price_lag\<close> and \<open>_check_lag\<close> build from the two current
  observations. The float division raises \<open>ZeroDivisionError\<close> on a zero divisor.
\<close>

definition make_lag :: "string \<Rightarrow> PriceData \<Rightarrow> PriceData \<Rightarrow> py_error + PriceLag" where
  "make_lag symb oracle polymarket =
     (let lag_s = pd_timestamp oracle - pd_timestamp polymarket
      in if pd_price polymarket = 0 then Inl ZeroDivisionError
         else Inr \<lparr>lag_symbol = symb,
                   oracle_price = pd_price oracle,
                   polymarket_price = pd_price polymarket,
                   oracle_timestamp = pd_timestamp oracle,
                   polymarket_timestamp = pd_timestamp polymarket,
                   lag_seconds = \<bar>lag_s\<bar>,
                   price_difference_pct =
                     ((pd_price oracle - pd_price polymarket) / pd_price polymarket) * 100\<rparr>)"

definition get_price_lag :: "PriceManager \<Rightarrow> string \<Rightarrow> py_error + PriceLag option" where
  "get_price_lag pm symb =
     (case get_oracle_price pm symb of
        None \<Rightarrow> Inr None
      | Some oracle \<Rightarrow>
          (case get_polymarket_price pm symb of
             None \<Rightarrow> Inr None
           | Some polymarket \<Rightarrow>
               (case make_lag symb oracle polymarket of
                  Inl e \<Rightarrow> Inl e
                | Inr lag \<Rightarrow> Inr (Some lag))))"

text \<open>
  \<open>PriceManager._check_lag\<close> returns nothing; its observable outcome is the reading it
  hands to the lag callbacks, which is the value of this function (\<open>None\<close> when it
  returns early or the reading is not profitable).
\<close>

definition check_lag :: "PriceManager \<Rightarrow> string \<Rightarrow> py_error + PriceLag option" where
  "check_lag pm symb =
     (case oracle_feeds pm symb of
        None \<Rightarrow> Inr None
      | Some oracle_feed \<Rightarrow>
          (case current_price oracle_feed of
             None \<Rightarrow> Inr None
           | Some oracle \<Rightarrow>
               (case polymarket_feeds pm symb of
                  None \<Rightarrow> Inr None
                | Some polymarket_feed \<Rightarrow>
                    (case current_price polymarket_feed of
                       None \<Rightarrow> Inr None
                     | Some pm_price \<Rightarrow>
                         (case make_lag symb oracle pm_price of
                            Inl e \<Rightarrow> Inl e
                          | Inr lag \<Rightarrow>
                              Inr (if is_profitable lag then Some lag else None))))))"

definition update_polymarket_price ::
  "PriceManager \<Rightarrow> string \<Rightarrow> real \<Rightarrow> real \<Rightarrow> PriceManager" where
  "update_polymarket_price pm symb p ts =
     (let feed = (case polymarket_feeds pm symb of None \<Rightarrow> new_feed symb | Some f \<Rightarrow> f);
          price_data = \<lparr>pd_symbol = symb, pd_price = p, pd_timestamp = ts,
                        pd_source = POLYMARKET, pd_confidence = 9 / 10,
                        volume_24h = None, change_24h_pct = None,
                        high_24h = None, low_24h = None\<rparr>
      in pm\<lparr>polymarket_feeds := (polymarket_feeds pm)(symb \<mapsto> update price_data feed)\<rparr>)"

section \<open>Rounding\<close>

text \<open>
  Python's \<open>round(x, ndigits)\<close> on the exact value: the nearest multiple of
  \<open>10 ^ (- ndigits)\<close>, a tie going to the even neighbour.
\<close>

definition py_round_int :: "real \<Rightarrow> int" where
  "py_round_int x =
     (let f = \<lfloor>x\<rfloor>; d = x - of_int f
      in if d < 1 / 2 then f
         else if 1 / 2 < d then f + 1
         else if even f then f else f + 1)"

definition py_round :: "nat \<Rightarrow> real \<Rightarrow> real" where
  "py_round ndigits x = of_int (py_round_int (x * 10 ^ ndigits)) / 10 ^ ndigits"

section \<open>polymarket/models.py\<close>

datatype OrderSide = BUY | SELL

datatype PositionStatus = OPEN | CLOSED

record OrderBookLevel =
  lvl_price :: real
  lvl_size :: real

record OrderBook =
  ob_token_id :: string
  bids :: "OrderBookLevel list"
  asks :: "OrderBookLevel list"
  ob_timestamp :: real

record MarketOutcome =
  outcome_id :: string
  mo_token_id :: string
  outcome :: string
  mo_price :: real
  order_book :: "OrderBook option"

text \<open>
  Of \<open>Market\<close>, the fields the strategy reads; the descriptive ones (question,
  description, dates) take no part in any computation below.
\<close>

record Market =
  market_id :: string
  crypto_symbol :: "string option"
  outcomes :: "MarketOutcome list"
  volume :: real
  liquidity :: real
  price_threshold :: "real option"
  threshold_type :: "string option"

text \<open>\<open>str.lower\<close> on ASCII text.\<close>

definition lower_char :: "char \<Rightarrow> char" where
  "lower_char c =
     (case map_of (zip ''ABCDEFGHIJKLMNOPQRSTUVWXYZ'' ''abcdefghijklmnopqrstuvwxyz'') c of
        Some d \<Rightarrow> d
      | None \<Rightarrow> c)"

definition lower :: "string \<Rightarrow> string" where
  "lower s = map lower_char s"

definition get_yes_outcome :: "Market \<Rightarrow> MarketOutcome option" where
  "get_yes_outcome m = find (\<lambda>oc. lower (outcome oc) = ''yes'') (outcomes m)"

text \<open>\<open>if not self.price_threshold\<close> holds for \<open>None\<close> and for \<open>0.0\<close>.\<close>

definition get_implied_price :: "Market \<Rightarrow> real option" where
  "get_implied_price m =
     (case price_threshold m of
        None \<Rightarrow> None
      | Some th \<Rightarrow>
          if th = 0 then None
          else (case get_yes_outcome m of
                  None \<Rightarrow> None
                | Some yes_outcome \<Rightarrow>
                    (let prob = mo_price yes_outcome
                     in if threshold_type m = Some ''above''
                        then (let range_estimate = th * (5 / 100)
                              in Some (th + (prob - 1 / 2) * 2 * range_estimate))
                        else Some th)))"

record Position =
  position_id :: string
  pos_market_id :: string
  pos_token_id :: string
  pos_outcome :: string
  pos_side :: OrderSide
  entry_price :: real
  pos_size :: real
  pos_current_price :: real
  status :: PositionStatus
  opened_at :: real
  closed_at :: "real option"
  realized_pnl :: real

definition unrealized_pnl :: "Position \<Rightarrow> real" where
  "unrealized_pnl p =
     (if status p = CLOSED then 0
      else if pos_side p = BUY then (pos_current_price p - entry_price p) * pos_size p
      else (entry_price p - pos_current_price p) * pos_size p)"

section \<open>strategy/models.py\<close>

text \<open>
  The declarations of \<open>strategy/models.py\<close> are not among the sources. The records
  below carry the fields that \<open>lag_strategy.py\<close>, \<open>risk_manager.py\<close> and
  \<open>position_manager.py\<close> pass to the constructors and read back. A reason, which the
  source formats as text with the numbers interpolated, is a constructor carrying those
  numbers.
\<close>

datatype SignalType = NO_ACTION | BUY_YES | BUY_NO

datatype SignalStrength = WEAK | MODERATE | STRONG | VERY_STRONG

datatype signal_reason =
    NoReason
  | OracleAboveThreshold real real
  | OracleSuggestsLower real

text \<open>
  Modelled from the spec: the \<open>timestamp\<close> field of \<open>Signal\<close> (its declaration is in
  the missing \<open>strategy/models.py\<close>). \<open>analyze_lag\<close> passes no timestamp to the
  constructor and reads \<open>signal.timestamp\<close> back as the time of the signal, so the field
  is filled at construction from the clock.
\<close>

record Signal =
  sg_symbol :: string
  signal_type :: SignalType
  strength :: SignalStrength
  sg_oracle_price :: real
  market_price :: real
  sg_price_threshold :: real
  sg_lag_seconds :: real
  price_diff_pct :: real
  sg_confidence :: real
  reason :: signal_reason
  sg_market_id :: string
  sg_token_id :: string
  recommended_size :: real
  expected_profit_pct :: real
  sg_timestamp :: real

record TradeAction =
  action_id :: string
  ta_signal :: Signal
  ta_token_id :: string
  ta_side :: string
  ta_price :: real
  ta_size :: real
  order_type :: string
  stop_loss :: real
  take_profit :: real
  max_slippage :: real

record StrategyState =
  total_signals_generated :: int
  last_signal_time :: "real option"
  actionable_signals :: int

section \<open>strategy/lag\_strategy.py\<close>

record LagTradingStrategy =
  lag_threshold :: real
  price_diff_threshold :: real
  max_position_size :: real
  confidence_threshold :: real
  strat_max_concurrent_positions :: int
  strat_state :: StrategyState
  signal_history :: "Signal list"
  max_signal_history :: int

definition calculate_confidence :: "real \<Rightarrow> real \<Rightarrow> real \<Rightarrow> real \<Rightarrow> real" where
  "calculate_confidence lag_s prob_diff oracle_confidence market_liquidity =
     (let lag_factor = min 1 (lag_s / 30);
          prob_factor = min 1 (prob_diff / (2 / 10));
          oracle_factor = oracle_confidence;
          liquidity_factor = min 1 (market_liquidity / 10000);
          conf = lag_factor * (3 / 10) + prob_factor * (35 / 100)
                 + oracle_factor * (2 / 10) + liquidity_factor * (15 / 100)
      in py_round 3 conf)"

fun strength_multipliers :: "SignalStrength \<Rightarrow> real" where
  "strength_multipliers WEAK = 25 / 100"
| "strength_multipliers MODERATE = 5 / 10"
| "strength_multipliers STRONG = 75 / 100"
| "strength_multipliers VERY_STRONG = 1"

text \<open>The first argument is \<open>self.max_position_size\<close>.\<close>

definition calculate_position_size ::
  "real \<Rightarrow> real \<Rightarrow> SignalStrength \<Rightarrow> real \<Rightarrow> real" where
  "calculate_position_size base_size conf str market_liquidity =
     (let size0 = base_size * conf;
          size1 = size0 * strength_multipliers str;
          max_from_liquidity = market_liquidity * (1 / 10);
          size2 = min size1 max_from_liquidity
      in py_round 2 size2)"

definition calculate_expected_profit :: "real \<Rightarrow> real \<Rightarrow> real \<Rightarrow> real" where
  "calculate_expected_profit prob_diff market_prob rec_size =
     (let expected_profit = \<bar>prob_diff\<bar> * 100 - 2
      in max 0 (py_round 2 expected_profit))"

text \<open>The signal type, strength and reason chosen from the lag and the mispricing.\<close>

definition classify ::
  "real \<Rightarrow> real \<Rightarrow> real \<Rightarrow> real \<Rightarrow> real \<Rightarrow> SignalType \<times> SignalStrength \<times> signal_reason" where
  "classify lag_thr lag_s prob_diff oracle_p threshold_p =
     (if \<bar>lag_s\<bar> \<ge> lag_thr \<and> \<bar>prob_diff\<bar> \<ge> 5 / 100
      then (if prob_diff > 0 then BUY_YES else BUY_NO,
            if \<bar>prob_diff\<bar> \<ge> 15 / 100 then VERY_STRONG
            else if \<bar>prob_diff\<bar> \<ge> 10 / 100 then STRONG
            else MODERATE,
            if prob_diff > 0 then OracleAboveThreshold oracle_p threshold_p
            else OracleSuggestsLower oracle_p)
      else (NO_ACTION, WEAK, NoReason))"

text \<open>
  \<open>analyze_lag\<close> is modelled in three parts. \<open>build_signal\<close> is the body from the
  price difference to the \<open>Signal(...)\<close> constructor, run once the guards have found
  the implied price, the threshold and the Yes outcome. \<open>record_signal\<close> is the update
  of the counters and of the bounded history. \<open>analyze_lag\<close> itself is the guards
  (\<open>if not x: return None\<close>, which holds for \<open>None\<close> and for \<open>0.0\<close>) around them.
  The property \<open>Signal.is_actionable\<close> is declared in the missing
  \<open>strategy/models.py\<close> and is the parameter \<open>actionable\<close>.
\<close>

definition build_signal ::
  "real \<Rightarrow> LagTradingStrategy \<Rightarrow> string \<Rightarrow> PriceData \<Rightarrow> Market \<Rightarrow> real \<Rightarrow> real
     \<Rightarrow> MarketOutcome \<Rightarrow> Signal" where
  "build_signal now self symb oracle market market_implied threshold_price yes_outcome =
     (let pdiff_pct = ((pd_price oracle - market_implied) / market_implied) * 100;
          lag_s = (case order_book yes_outcome of
                     Some ob \<Rightarrow> pd_timestamp oracle - ob_timestamp ob
                   | None \<Rightarrow> 15);
          market_prob = mo_price yes_outcome;
          price_distance_pct = ((pd_price oracle - threshold_price) / threshold_price) * 100;
          expected_prob = max (1 / 10) (min (9 / 10) (1 / 2 + price_distance_pct * (1 / 10)));
          prob_diff = expected_prob - market_prob;
          cls = classify (lag_threshold self) lag_s prob_diff (pd_price oracle) threshold_price;
          sig_type = fst cls;
          str = fst (snd cls);
          rsn = snd (snd cls);
          conf = calculate_confidence \<bar>lag_s\<bar> \<bar>prob_diff\<bar> (pd_confidence oracle)
                   (liquidity market);
          rec_size = calculate_position_size (max_position_size self) conf str
                       (liquidity market);
          expected_profit = calculate_expected_profit prob_diff market_prob rec_size
      in \<lparr>sg_symbol = symb, signal_type = sig_type, strength = str,
          sg_oracle_price = pd_price oracle, market_price = market_implied,
          sg_price_threshold = threshold_price, sg_lag_seconds = \<bar>lag_s\<bar>,
          price_diff_pct = pdiff_pct, sg_confidence = conf, reason = rsn,
          sg_market_id = market_id market, sg_token_id = mo_token_id yes_outcome,
          recommended_size = rec_size, expected_profit_pct = expected_profit,
          sg_timestamp = now\<rparr>)"

definition record_signal ::
  "(Signal \<Rightarrow> bool) \<Rightarrow> LagTradingStrategy \<Rightarrow> Signal \<Rightarrow> LagTradingStrategy" where
  "record_signal actionable self signal =
     (let st0 = strat_state self;
          st1 = st0\<lparr>total_signals_generated := total_signals_generated st0 + 1,
                     last_signal_time := Some (sg_timestamp signal)\<rparr>;
          st2 = (if actionable signal
                 then st1\<lparr>actionable_signals := actionable_signals st1 + 1\<rparr> else st1);
          hist = signal_history self @ [signal];
          hist' = (if int (length hist) > max_signal_history self
                   then slice_from (- max_signal_history self) hist else hist)
      in self\<lparr>strat_state := st2, signal_history := hist'\<rparr>)"

definition analyze_lag ::
  "(Signal \<Rightarrow> bool) \<Rightarrow> real \<Rightarrow> LagTradingStrategy \<Rightarrow> string \<Rightarrow> PriceData option
     \<Rightarrow> Market option \<Rightarrow> Signal option \<times> LagTradingStrategy" where
  "analyze_lag actionable now self symb oracle_opt market_opt =
     (case oracle_opt of
        None \<Rightarrow> (None, self)
      | Some oracle \<Rightarrow>
     (case market_opt of
        None \<Rightarrow> (None, self)
      | Some market \<Rightarrow>
     (case get_implied_price market of
        None \<Rightarrow> (None, self)
      | Some market_implied \<Rightarrow>
     if market_implied = 0 then (None, self) else
     (case price_threshold market of
        None \<Rightarrow> (None, self)
      | Some threshold_price \<Rightarrow>
     if threshold_price = 0 then (None, self) else
     (case get_yes_outcome market of
        None \<Rightarrow> (None, self)
      | Some yes_outcome \<Rightarrow>
          (let signal = build_signal now self symb oracle market market_implied
                          threshold_price yes_outcome
           in (Some signal, record_signal actionable self signal)))))))"

section \<open>strategy/risk\_manager.py\<close>

record RiskLimits =
  max_position_size_usd :: real
  max_daily_loss_usd :: real
  max_concurrent_positions :: int
  max_slippage_pct :: real
  stop_loss_pct :: real
  min_liquidity_usd :: real
  max_exposure_pct :: real
  cooldown_after_loss_seconds :: real

definition default_limits :: RiskLimits where
  "default_limits =
     \<lparr>max_position_size_usd = 100, max_daily_loss_usd = 50, max_concurrent_positions = 3,
      max_slippage_pct = 1 / 2, stop_loss_pct = 5, min_liquidity_usd = 500,
      max_exposure_pct = 50, cooldown_after_loss_seconds = 60\<rparr>"

record RiskState =
  daily_pnl :: real
  daily_trades :: int
  daily_losses :: int
  current_exposure_usd :: real
  last_loss_time :: "real option"
  in_cooldown :: bool
  positions_count :: int
  day_start :: real

text \<open>
  The calendar day of an instant, and \<open>t.replace(hour=0, minute=0, second=0)\<close>, which
  keeps the fraction of a second.
\<close>

definition date_of :: "real \<Rightarrow> int" where
  "date_of t = \<lfloor>t / 86400\<rfloor>"

definition day_floor :: "real \<Rightarrow> real" where
  "day_floor t = of_int (date_of t) * 86400 + (t - of_int \<lfloor>t\<rfloor>)"

definition new_state :: "real \<Rightarrow> RiskState" where
  "new_state now =
     \<lparr>daily_pnl = 0, daily_trades = 0, daily_losses = 0, current_exposure_usd = 0,
      last_loss_time = None, in_cooldown = False, positions_count = 0,
      day_start = day_floor now\<rparr>"

definition reset_daily :: "real \<Rightarrow> RiskState \<Rightarrow> RiskState" where
  "reset_daily now st =
     st\<lparr>daily_pnl := 0, daily_trades := 0, daily_losses := 0, day_start := day_floor now\<rparr>"

record TradeRecord =
  tr_pnl :: real
  tr_position_size :: real
  tr_timestamp :: real
  tr_daily_pnl :: real
  tr_daily_trades :: int

record RiskManager =
  limits :: RiskLimits
  state :: RiskState
  trade_history :: "TradeRecord list"

definition new_manager :: "RiskLimits \<Rightarrow> real \<Rightarrow> RiskManager" where
  "new_manager lms now = \<lparr>limits = lms, state = new_state now, trade_history = []\<rparr>"

definition check_daily_reset :: "real \<Rightarrow> RiskManager \<Rightarrow> RiskManager" where
  "check_daily_reset now rm =
     (if date_of now > date_of (day_start (state rm))
      then rm\<lparr>state := reset_daily now (state rm)\<rparr> else rm)"

datatype reject_reason =
    OK
  | DailyLossLimitReached real
  | MaxConcurrentReached int
  | InCooldownAfterLoss int
  | PositionSizeExceeds real real
  | SlippageExceeds real real
  | ConfidenceTooLow real

definition can_trade :: "real \<Rightarrow> RiskManager \<Rightarrow> (bool \<times> reject_reason) \<times> RiskManager" where
  "can_trade now rm0 =
     (let rm = check_daily_reset now rm0; st = state rm; lms = limits rm
      in if \<bar>daily_pnl st\<bar> \<ge> max_daily_loss_usd lms \<and> daily_pnl st < 0
         then ((False, DailyLossLimitReached (daily_pnl st)), rm)
         else if positions_count st \<ge> max_concurrent_positions lms
         then ((False, MaxConcurrentReached (positions_count st)), rm)
         else if in_cooldown st
         then (case last_loss_time st of
                 None \<Rightarrow> ((True, OK), rm)
               | Some t \<Rightarrow>
                   (let cooldown_end = t + cooldown_after_loss_seconds lms
                    in if now < cooldown_end
                       then ((False, InCooldownAfterLoss (\<lfloor>cooldown_end - now\<rfloor> mod 86400)), rm)
                       else ((True, OK), rm\<lparr>state := st\<lparr>in_cooldown := False\<rparr>\<rparr>)))
         else ((True, OK), rm))"

definition validate_trade ::
  "real \<Rightarrow> RiskManager \<Rightarrow> TradeAction \<Rightarrow> (bool \<times> reject_reason) \<times> RiskManager" where
  "validate_trade now rm0 action =
     (case can_trade now rm0 of
        ((ok, rsn), rm) \<Rightarrow>
          if \<not> ok then ((False, rsn), rm)
          else if ta_size action > max_position_size_usd (limits rm)
          then ((False, PositionSizeExceeds (ta_size action) (max_position_size_usd (limits rm))), rm)
          else if max_slippage action > max_slippage_pct (limits rm) / 100
          then ((False, SlippageExceeds (max_slippage action * 100) (max_slippage_pct (limits rm))), rm)
          else if sg_confidence (ta_signal action) < 1 / 2
          then ((False, ConfidenceTooLow (sg_confidence (ta_signal action))), rm)
          else ((True, OK), rm))"

definition adjust_position_size :: "RiskManager \<Rightarrow> real \<Rightarrow> real \<Rightarrow> real \<Rightarrow> real" where
  "adjust_position_size rm requested_size conf market_liquidity =
     (let size0 = requested_size * conf;
          size1 = min size0 (max_position_size_usd (limits rm));
          max_from_liquidity = market_liquidity * (10 / 100);
          size2 = min size1 max_from_liquidity;
          size3 = (if daily_losses (state rm) > 0
                   then size2 * max (1 / 2) (1 - of_int (daily_losses (state rm)) * (1 / 10))
                   else size2);
          min_size = 5
      in if size3 < min_size then 0 else py_round 2 size3)"

text \<open>
  The value \<open>adjust_position_size\<close> holds in \<open>size\<close> when it reaches the minimum size
  test: the requested size scaled by the confidence, capped at the position limit and at
  a tenth of the liquidity, and reduced after losses.
\<close>

definition adjusted_size :: "RiskManager \<Rightarrow> real \<Rightarrow> real \<Rightarrow> real \<Rightarrow> real" where
  "adjusted_size rm requested_size conf market_liquidity =
     min (min (requested_size * conf) (max_position_size_usd (limits rm)))
         (market_liquidity * (10 / 100))
     * (if daily_losses (state rm) > 0
        then max (1 / 2) (1 - of_int (daily_losses (state rm)) * (1 / 10))
        else 1)"

definition on_trade_opened :: "RiskManager \<Rightarrow> real \<Rightarrow> RiskManager" where
  "on_trade_opened rm position_size =
     (let st = state rm
      in rm\<lparr>state := st\<lparr>positions_count := positions_count st + 1,
                           current_exposure_usd := current_exposure_usd st + position_size,
                           daily_trades := daily_trades st + 1\<rparr>\<rparr>)"

definition on_trade_closed :: "real \<Rightarrow> RiskManager \<Rightarrow> real \<Rightarrow> real \<Rightarrow> RiskManager" where
  "on_trade_closed now rm pnl position_size =
     (let st = state rm;
          st1 = st\<lparr>positions_count := max 0 (positions_count st - 1),
                    current_exposure_usd := max 0 (current_exposure_usd st - position_size),
                    daily_pnl := daily_pnl st + pnl\<rparr>;
          st2 = (if pnl < 0
                 then st1\<lparr>daily_losses := daily_losses st1 + 1,
                          last_loss_time := Some now,
                          in_cooldown := True\<rparr>
                 else st1)
      in rm\<lparr>state := st2,
             trade_history := trade_history rm
               @ [\<lparr>tr_pnl = pnl, tr_position_size = position_size, tr_timestamp = now,
                   tr_daily_pnl = daily_pnl st2, tr_daily_trades = daily_trades st2\<rparr>]\<rparr>)"

subsection \<open>Calls on a risk manager over time\<close>

datatype risk_call =
    CanTrade
  | ValidateTrade TradeAction
  | TradeOpened real
  | TradeClosed real real

fun risk_step :: "real \<Rightarrow> risk_call \<Rightarrow> RiskManager \<Rightarrow> RiskManager" where
  "risk_step now CanTrade rm = snd (can_trade now rm)"
| "risk_step now (ValidateTrade a) rm = snd (validate_trade now rm a)"
| "risk_step now (TradeOpened sz) rm = on_trade_opened rm sz"
| "risk_step now (TradeClosed pnl sz) rm = on_trade_closed now rm pnl sz"

text \<open>A history of calls, each with the clock reading at which it is made.\<close>

fun run_calls :: "RiskManager \<Rightarrow> (real \<times> risk_call) list \<Rightarrow> RiskManager" where
  "run_calls rm [] = rm"
| "run_calls rm ((t, c) # cs) = run_calls (risk_step t c rm) cs"

text \<open>The clock does not run backwards: the readings, from \<open>t0\<close> on, never decrease.\<close>

fun clock_ok :: "real \<Rightarrow> (real \<times> risk_call) list \<Rightarrow> bool" where
  "clock_ok t0 [] = True"
| "clock_ok t0 ((t, c) # cs) = (t0 \<le> t \<and> clock_ok t cs)"

fun last_clock :: "real \<Rightarrow> (real \<times> risk_call) list \<Rightarrow> real" where
  "last_clock t0 [] = t0"
| "last_clock t0 ((t, c) # cs) = last_clock t cs"

fun opened_sizes_ok :: "(real \<times> risk_call) list \<Rightarrow> bool" where
  "opened_sizes_ok [] = True"
| "opened_sizes_ok ((t, TradeOpened sz) # cs) = (0 \<le> sz \<and> opened_sizes_ok cs)"
| "opened_sizes_ok ((t, c) # cs) = opened_sizes_ok cs"


text \<open>
  The day's realised pnl, read off the history of calls: the sum of the pnl of the closes
  recorded on the calendar day \<open>d\<close>.
\<close>

fun day_pnl :: "int \<Rightarrow> (real \<times> risk_call) list \<Rightarrow> real" where
  "day_pnl d [] = 0"
| "day_pnl d ((t, TradeClosed pnl sz) # cs) = (if date_of t = d then pnl else 0) + day_pnl d cs"
| "day_pnl d ((t, c) # cs) = day_pnl d cs"

text \<open>
  \<open>on_trade_closed\<close> does not run the lazy daily reset that \<open>can_trade\<close> runs. A
  history satisfies \<open>closes_after_reset\<close> when every close is recorded on the calendar
  day of the stored day boundary, that is, when no close is recorded while a reset is
  pending.
\<close>

fun closes_after_reset :: "RiskManager \<Rightarrow> (real \<times> risk_call) list \<Rightarrow> bool" where
  "closes_after_reset rm [] = True"
| "closes_after_reset rm ((t, TradeClosed pnl sz) # cs) =
     (date_of t = date_of (day_start (state rm))
      \<and> closes_after_reset (on_trade_closed t rm pnl sz) cs)"
| "closes_after_reset rm ((t, c) # cs) = closes_after_reset (risk_step t c rm) cs"

text \<open>
  The invariant behind the daily halt, for a manager \<open>rm\<close> reached by the calls
  \<open>pre\<close>: the stored daily pnl is the realised pnl of the stored day, and no close has
  been recorded on a later day.
\<close>

definition pnl_inv :: "(real \<times> risk_call) list \<Rightarrow> RiskManager \<Rightarrow> bool" where
  "pnl_inv pre rm \<longleftrightarrow>
     daily_pnl (state rm) = day_pnl (date_of (day_start (state rm))) pre
     \<and> (\<forall>d. date_of (day_start (state rm)) < d \<longrightarrow> day_pnl d pre = 0)"

text \<open>
  What the claim forbids approval on, for a state, the day's realised pnl and the clock:
  the concurrency cap is reached, the day's loss has reached the limit, or the window of
  the last loss has not elapsed.
\<close>

definition blocked :: "RiskLimits \<Rightarrow> RiskState \<Rightarrow> real \<Rightarrow> real \<Rightarrow> bool" where
  "blocked lms st pnl_today now \<longleftrightarrow>
     positions_count st \<ge> max_concurrent_positions lms
     \<or> (pnl_today < 0 \<and> pnl_today \<le> - max_daily_loss_usd lms)
     \<or> (case last_loss_time st of
           None \<Rightarrow> False
         | Some t_loss \<Rightarrow> now < t_loss + cooldown_after_loss_seconds lms)"

subsection \<open>The order of the checks, as the specification words it\<close>

datatype check_id =
    DailyHalt | Concurrency | Cooldown | PositionSizeLimit | SlippageLimit | SignalConfidence

definition check_order :: "check_id list" where
  "check_order =
     [DailyHalt, Concurrency, Cooldown, PositionSizeLimit, SlippageLimit, SignalConfidence]"

text \<open>
  Whether a check fails, on the limits, the state after the lazy daily reset, the clock
  and the proposal; and the reason a failing check reports.
\<close>

fun check_fails :: "RiskLimits \<Rightarrow> RiskState \<Rightarrow> real \<Rightarrow> TradeAction \<Rightarrow> check_id \<Rightarrow> bool" where
  "check_fails lms st now a DailyHalt =
     (\<bar>daily_pnl st\<bar> \<ge> max_daily_loss_usd lms \<and> daily_pnl st < 0)"
| "check_fails lms st now a Concurrency =
     (positions_count st \<ge> max_concurrent_positions lms)"
| "check_fails lms st now a Cooldown =
     (in_cooldown st \<and>
      (case last_loss_time st of
         None \<Rightarrow> False
       | Some t \<Rightarrow> now < t + cooldown_after_loss_seconds lms))"
| "check_fails lms st now a PositionSizeLimit = (ta_size a > max_position_size_usd lms)"
| "check_fails lms st now a SlippageLimit = (max_slippage a > max_slippage_pct lms / 100)"
| "check_fails lms st now a SignalConfidence = (sg_confidence (ta_signal a) < 1 / 2)"

fun check_reason :: "RiskLimits \<Rightarrow> RiskState \<Rightarrow> real \<Rightarrow> TradeAction \<Rightarrow> check_id \<Rightarrow> reject_reason" where
  "check_reason lms st now a DailyHalt = DailyLossLimitReached (daily_pnl st)"
| "check_reason lms st now a Concurrency = MaxConcurrentReached (positions_count st)"
| "check_reason lms st now a Cooldown =
     InCooldownAfterLoss
       (\<lfloor>the (last_loss_time st) + cooldown_after_loss_seconds lms - now\<rfloor> mod 86400)"
| "check_reason lms st now a PositionSizeLimit =
     PositionSizeExceeds (ta_size a) (max_position_size_usd lms)"
| "check_reason lms st now a SlippageLimit =
     SlippageExceeds (max_slippage a * 100) (max_slippage_pct lms)"
| "check_reason lms st now a SignalConfidence = ConfidenceTooLow (sg_confidence (ta_signal a))"

text \<open>Which check a reason names.\<close>

fun check_of_reason :: "reject_reason \<Rightarrow> check_id option" where
  "check_of_reason OK = None"
| "check_of_reason (DailyLossLimitReached x) = Some DailyHalt"
| "check_of_reason (MaxConcurrentReached n) = Some Concurrency"
| "check_of_reason (InCooldownAfterLoss n) = Some Cooldown"
| "check_of_reason (PositionSizeExceeds x y) = Some PositionSizeLimit"
| "check_of_reason (SlippageExceeds x y) = Some SlippageLimit"
| "check_of_reason (ConfidenceTooLow x) = Some SignalConfidence"

text \<open>
  The approval as the specification words it: run the checks in the fixed order, stop at
  the first that fails and report its reason.
\<close>

definition approve_spec ::
  "RiskLimits \<Rightarrow> RiskState \<Rightarrow> real \<Rightarrow> TradeAction \<Rightarrow> bool \<times> reject_reason" where
  "approve_spec lms st now a =
     (case find (check_fails lms st now a) check_order of
        None \<Rightarrow> (True, OK)
      | Some c \<Rightarrow> (False, check_reason lms st now a c))"

section \<open>strategy/position\_manager.py\<close>

record PositionManager =
  open_positions :: "string \<rightharpoonup> Position"
  closed_positions :: "Position list"
  max_closed_history :: int
  total_realized_pnl :: real
  total_trades :: int
  winning_trades :: int
  losing_trades :: int

definition new_position_manager :: PositionManager where
  "new_position_manager =
     \<lparr>open_positions = Map.empty, closed_positions = [], max_closed_history = 500,
      total_realized_pnl = 0, total_trades = 0, winning_trades = 0, losing_trades = 0\<rparr>"

text \<open>\<open>open_position\<close>; the fresh \<open>uuid4\<close> string is the argument \<open>new_id\<close>.\<close>

definition open_position ::
  "real \<Rightarrow> string \<Rightarrow> PositionManager \<Rightarrow> TradeAction \<Rightarrow> real \<Rightarrow> Position \<times> PositionManager" where
  "open_position now new_id pm action execution_price =
     (let position =
            \<lparr>position_id = new_id,
             pos_market_id = sg_market_id (ta_signal action),
             pos_token_id = ta_token_id action,
             pos_outcome = (if signal_type (ta_signal action) = BUY_YES then ''Yes'' else ''No''),
             pos_side = (if ta_side action = ''BUY'' then BUY else SELL),
             entry_price = execution_price,
             pos_size = ta_size action,
             pos_current_price = execution_price,
             status = OPEN,
             opened_at = now,
             closed_at = None,
             realized_pnl = 0\<rparr>
      in (position,
          pm\<lparr>open_positions := (open_positions pm)(position_id position \<mapsto> position),
             total_trades := total_trades pm + 1\<rparr>))"

definition close_position ::
  "real \<Rightarrow> PositionManager \<Rightarrow> string \<Rightarrow> real \<Rightarrow> (Position \<times> real) option \<times> PositionManager" where
  "close_position now pm pid exit_price =
     (case open_positions pm pid of
        None \<Rightarrow> (None, pm)
      | Some position \<Rightarrow>
          (let p1 = position\<lparr>pos_current_price := exit_price\<rparr>;
               pnl = unrealized_pnl p1;
               p2 = p1\<lparr>realized_pnl := pnl, status := CLOSED, closed_at := Some now\<rparr>;
               closed = closed_positions pm @ [p2];
               closed' = (if int (length closed) > max_closed_history pm
                          then slice_from (- max_closed_history pm) closed else closed)
           in (Some (p2, pnl),
               pm\<lparr>open_positions := (open_positions pm)(pid := None),
                  closed_positions := closed',
                  total_realized_pnl := total_realized_pnl pm + pnl,
                  winning_trades := (if pnl > 0 then winning_trades pm + 1 else winning_trades pm),
                  losing_trades := (if pnl > 0 then losing_trades pm else losing_trades pm + 1)\<rparr>)))"

subsection \<open>Example observations\<close>

definition obs :: "PriceSource \<Rightarrow> real \<Rightarrow> real \<Rightarrow> PriceData" where
  "obs src p ts =
     \<lparr>pd_symbol = ''BTC'', pd_price = p, pd_timestamp = ts, pd_source = src,
      pd_confidence = 1, volume_24h = None, change_24h_pct = None,
      high_24h = None, low_24h = None\<rparr>"

definition small_feed :: PriceFeed where
  "small_feed = (new_feed ''BTC'')\<lparr>max_history_size := 2\<rparr>"

text \<open>
  A price manager whose BTC feeds have each received one observation: the oracle value
  at one time, the implied value at another.
\<close>

definition manager_at :: "real \<Rightarrow> real \<Rightarrow> real \<Rightarrow> real \<Rightarrow> PriceManager" where
  "manager_at oracle_value oracle_time implied_value implied_time =
     \<lparr>oracle_feeds =
        [''BTC'' \<mapsto> update (obs CHAINLINK_SCRAPE oracle_value oracle_time) (new_feed ''BTC'')],
      polymarket_feeds =
        [''BTC'' \<mapsto> update (obs POLYMARKET implied_value implied_time) (new_feed ''BTC'')]\<rparr>"

subsection \<open>Example strategy, market and signals\<close>

text \<open>
  Modelled from the spec: the property \<open>Signal.is_actionable\<close> (declared in the missing
  \<open>strategy/models.py\<close>), in the spec's words: the direction is not NONE and the stored
  confidence is at least the threshold. It is used only as the argument of \<open>analyze_lag\<close>
  in the examples.
\<close>

definition is_actionable :: "real \<Rightarrow> Signal \<Rightarrow> bool" where
  "is_actionable thr sg \<longleftrightarrow> signal_type sg \<noteq> NO_ACTION \<and> sg_confidence sg \<ge> thr"

text \<open>\<open>LagTradingStrategy()\<close>: the constructor's defaults.\<close>

definition new_strategy :: LagTradingStrategy where
  "new_strategy =
     \<lparr>lag_threshold = 10, price_diff_threshold = 3 / 10, max_position_size = 100,
      confidence_threshold = 6 / 10, strat_max_concurrent_positions = 3,
      strat_state = \<lparr>total_signals_generated = 0, last_signal_time = None,
                      actionable_signals = 0\<rparr>,
      signal_history = [], max_signal_history = 1000\<rparr>"

text \<open>
  A market "BTC above 100000?" whose Yes outcome trades at one half and has no order
  book, with the given liquidity.
\<close>

definition btc_market :: "real \<Rightarrow> Market" where
  "btc_market liq =
     \<lparr>market_id = ''m1'', crypto_symbol = Some ''BTC'',
      outcomes = [\<lparr>outcome_id = ''o1'', mo_token_id = ''t1'', outcome = ''Yes'',
                   mo_price = 1 / 2, order_book = None\<rparr>],
      volume = 0, liquidity = liq,
      price_threshold = Some 100000, threshold_type = Some ''above''\<rparr>"

text \<open>The fields of a signal that the scoring decides, and a signal with its time erased.\<close>

definition signal_summary :: "Signal \<Rightarrow> SignalType \<times> SignalStrength \<times> real \<times> real" where
  "signal_summary sg = (signal_type sg, strength sg, sg_confidence sg, recommended_size sg)"


subsection \<open>Example proposals and limits\<close>

text \<open>A proposal of the given size, slippage bound and signal confidence.\<close>

definition proposal :: "real \<Rightarrow> real \<Rightarrow> real \<Rightarrow> TradeAction" where
  "proposal sz slip conf =
     \<lparr>action_id = ''a1'',
      ta_signal =
        \<lparr>sg_symbol = ''BTC'', signal_type = BUY_YES, strength = VERY_STRONG,
         sg_oracle_price = 102000, market_price = 100000, sg_price_threshold = 100000,
         sg_lag_seconds = 15, price_diff_pct = 2, sg_confidence = conf,
         reason = OracleAboveThreshold 102000 100000, sg_market_id = ''m1'',
         sg_token_id = ''t1'', recommended_size = sz, expected_profit_pct = 18,
         sg_timestamp = 0\<rparr>,
      ta_token_id = ''t1'', ta_side = ''BUY'', ta_price = 0, ta_size = sz,
      order_type = ''FOK'', stop_loss = 95000, take_profit = 99 / 100,
      max_slippage = slip\<rparr>"




definition close_after_midnight :: "(real \<times> risk_call) list" where
  "close_after_midnight = [(10, TradeOpened 20), (86700, TradeClosed (- 60) 20)]"

section \<open>Feed series: what update stores\<close>

lemma slice_from_neg:
  "0 < n \<Longrightarrow> slice_from (- n) xs = drop (length xs - nat n) xs"
  by (auto simp: slice_from_def Let_def max_def intro: arg_cong2 [where f = drop])

lemma update_history:
  assumes "0 < max_history_size f"
  shows "price_history (update pd f)
           = drop (Suc (length (price_history f)) - nat (max_history_size f))
                  (price_history f @ [pd])"
  using assms by (auto simp: update_def Let_def slice_from_neg)

lemma update_max [simp]: "max_history_size (update pd f) = max_history_size f"
  by (simp add: update_def Let_def)

lemma updates_max [simp]: "max_history_size (updates f pds) = max_history_size f"
  by (induction pds arbitrary: f) simp_all

lemma length_drop_tail: "n < length xs \<Longrightarrow> length (drop (length xs - n) xs) = n"
  by simp

lemma drop_tail_append:
  "drop (length (drop (length a - n) a @ b) - n) (drop (length a - n) a @ b)
     = drop (length (a @ b) - n) (a @ b)"
proof (cases "length a \<le> n")
  case True
  then show ?thesis by simp
next
  case False
  then show ?thesis by (simp add: add.commute)
qed

lemma updates_history:
  assumes "0 < max_history_size f" and "pds \<noteq> []"
  shows "price_history (updates f pds)
           = drop (length (price_history f @ pds) - nat (max_history_size f))
                  (price_history f @ pds)"
  using assms
proof (induction pds arbitrary: f)
  case Nil
  then show ?case by simp
next
  case (Cons pd pds)
  let ?n = "nat (max_history_size f)"
  let ?a = "price_history f @ [pd]"
  have step: "price_history (update pd f) = drop (length ?a - ?n) ?a"
    using update_history [OF Cons.prems(1), of pd] by simp
  show ?case
  proof (cases "pds = []")
    case True
    then show ?thesis using step by simp
  next
    case False
    have m: "0 < max_history_size (update pd f)" using Cons.prems(1) by simp
    have "price_history (updates (update pd f) pds)
            = drop (length (drop (length ?a - ?n) ?a @ pds) - ?n)
                   (drop (length ?a - ?n) ?a @ pds)"
      using Cons.IH [OF m False] step by simp
    also have "\<dots> = drop (length (?a @ pds) - ?n) (?a @ pds)"
      by (rule drop_tail_append)
    finally show ?thesis by simp
  qed
qed

text \<open>
  C3 (as stated, refuted). The claim says an observation older than the current head is
  dropped. \<open>update\<close> compares no timestamps: an observation stamped 5 arriving after
  one stamped 10 replaces the current price and is appended to the history.
\<close>

theorem update_out_of_order_counterexample:
  "pd_timestamp (obs CHAINLINK_SCRAPE 99 5) < pd_timestamp (obs CHAINLINK_SCRAPE 100 10)
   \<and> current_price (update (obs CHAINLINK_SCRAPE 100 10) (new_feed ''BTC''))
       = Some (obs CHAINLINK_SCRAPE 100 10)
   \<and> current_price (update (obs CHAINLINK_SCRAPE 99 5)
                       (update (obs CHAINLINK_SCRAPE 100 10) (new_feed ''BTC'')))
       = Some (obs CHAINLINK_SCRAPE 99 5)
   \<and> price_history (update (obs CHAINLINK_SCRAPE 99 5)
                       (update (obs CHAINLINK_SCRAPE 100 10) (new_feed ''BTC'')))
       = [obs CHAINLINK_SCRAPE 100 10, obs CHAINLINK_SCRAPE 99 5]
   \<and> update (obs CHAINLINK_SCRAPE 99 5)
              (update (obs CHAINLINK_SCRAPE 100 10) (new_feed ''BTC''))
       \<noteq> update (obs CHAINLINK_SCRAPE 100 10) (new_feed ''BTC'')"
  by (simp add: update_def new_feed_def obs_def Let_def)

text \<open>
  C3 (amended). For a feed of positive capacity and every incoming observation, whatever
  its timestamp, \<open>update\<close> makes it the current price and appends it to the history as
  the newest entry, evicting from the front only what exceeds the capacity.
\<close>

theorem update_always_stores:
  assumes "0 < max_history_size f"
  shows "current_price (update pd f) = Some pd
         \<and> price_history (update pd f)
             = drop (Suc (length (price_history f)) - nat (max_history_size f))
                    (price_history f @ [pd])
         \<and> last (price_history (update pd f)) = pd"
proof -
  have h: "price_history (update pd f)
             = drop (Suc (length (price_history f)) - nat (max_history_size f))
                    (price_history f @ [pd])"
    by (rule update_history [OF assms])
  have "Suc (length (price_history f)) - nat (max_history_size f) \<le> length (price_history f)"
    using assms by simp
  then have "last (price_history (update pd f)) = pd"
    unfolding h by simp
  moreover have "current_price (update pd f) = Some pd"
    by (simp add: update_def Let_def)
  ultimately show ?thesis using h by simp
qed

theorem update_always_stores_witness:
  "0 < max_history_size (update (obs CHAINLINK_SCRAPE 100 10) small_feed)
   \<and> current_price (update (obs CHAINLINK_SCRAPE 99 5)
                       (update (obs CHAINLINK_SCRAPE 100 10) small_feed))
       = Some (obs CHAINLINK_SCRAPE 99 5)
   \<and> last (price_history (update (obs CHAINLINK_SCRAPE 99 5)
                             (update (obs CHAINLINK_SCRAPE 100 10) small_feed)))
       = obs CHAINLINK_SCRAPE 99 5"
proof -
  have h: "0 < max_history_size (update (obs CHAINLINK_SCRAPE 100 10) small_feed)"
    by (simp add: small_feed_def new_feed_def)
  show ?thesis
    using h update_always_stores [OF h, of "obs CHAINLINK_SCRAPE 99 5"] by simp
qed

text \<open>
  C4. For a feed of positive capacity \<open>N\<close> (the default is 1000) and every non-empty
  sequence of \<open>update\<close> calls, the stored history is never longer than \<open>N\<close>; it is the
  last \<open>N\<close> entries of everything that has arrived, in arrival order, and once more than
  \<open>N\<close> observations have arrived it holds exactly \<open>N\<close> of them.
\<close>

theorem updates_bounded_fifo:
  assumes "0 < max_history_size f" and "pds \<noteq> []"
  shows "length (price_history (updates f pds)) \<le> nat (max_history_size f)
         \<and> price_history (updates f pds)
             = drop (length (price_history f @ pds) - nat (max_history_size f))
                    (price_history f @ pds)
         \<and> (nat (max_history_size f) < length (price_history f @ pds)
              \<longrightarrow> length (price_history (updates f pds)) = nat (max_history_size f))"
proof -
  have h: "price_history (updates f pds)
             = drop (length (price_history f @ pds) - nat (max_history_size f))
                    (price_history f @ pds)"
    by (rule updates_history [OF assms])
  have "length (price_history (updates f pds)) \<le> nat (max_history_size f)"
    unfolding h using assms(1) by simp
  moreover have "nat (max_history_size f) < length (price_history f @ pds)
                   \<longrightarrow> length (price_history (updates f pds)) = nat (max_history_size f)"
    unfolding h by (rule impI) (rule length_drop_tail)
  ultimately show ?thesis using h by simp
qed

theorem updates_bounded_fifo_witness:
  "0 < max_history_size small_feed
   \<and> [obs POLYMARKET 1 1, obs POLYMARKET 2 2, obs POLYMARKET 3 3] \<noteq> []
   \<and> price_history (updates small_feed
                       [obs POLYMARKET 1 1, obs POLYMARKET 2 2, obs POLYMARKET 3 3])
       = [obs POLYMARKET 2 2, obs POLYMARKET 3 3]"
proof -
  have h: "0 < max_history_size small_feed"
    by (simp add: small_feed_def new_feed_def)
  have n: "[obs POLYMARKET 1 1, obs POLYMARKET 2 2, obs POLYMARKET 3 3] \<noteq> []"
    by simp
  have e: "price_history small_feed = []" "nat (max_history_size small_feed) = 2"
    by (simp_all add: small_feed_def new_feed_def)
  show ?thesis
    using h n updates_bounded_fifo [OF h n] by (simp add: e)
qed

section \<open>Signal scoring: rounding and ranges\<close>

lemma py_round_int_bounds: "\<lfloor>x\<rfloor> \<le> py_round_int x \<and> py_round_int x \<le> \<lfloor>x\<rfloor> + 1"
  by (simp add: py_round_int_def Let_def)

lemma py_round_int_of_int [simp]: "py_round_int (of_int k) = k"
  by (simp add: py_round_int_def Let_def)

lemma py_round_int_mono:
  assumes "x \<le> y"
  shows "py_round_int x \<le> py_round_int y"
proof -
  have fl: "\<lfloor>x\<rfloor> \<le> \<lfloor>y\<rfloor>" using assms by (rule floor_mono)
  show ?thesis
  proof (cases "\<lfloor>x\<rfloor> = \<lfloor>y\<rfloor>")
    case True
    then have "x - of_int \<lfloor>x\<rfloor> \<le> y - of_int \<lfloor>y\<rfloor>" using assms by simp
    then show ?thesis using True
      by (auto simp: py_round_int_def Let_def)
  next
    case False
    then have "\<lfloor>x\<rfloor> + 1 \<le> \<lfloor>y\<rfloor>" using fl by simp
    then show ?thesis
      using py_round_int_bounds [of x] py_round_int_bounds [of y] by linarith
  qed
qed

lemma py_round_mono: "x \<le> y \<Longrightarrow> py_round n x \<le> py_round n y"
  unfolding py_round_def
  by (intro divide_right_mono of_int_le_iff [THEN iffD2] py_round_int_mono mult_right_mono) simp_all

lemma py_round_of_int [simp]: "py_round n (of_int k) = of_int k"
proof -
  have "of_int k * (10::real) ^ n = of_int (k * 10 ^ n)" by simp
  then have "py_round_int (of_int k * 10 ^ n) = k * 10 ^ n"
    by (simp only: py_round_int_of_int)
  then show ?thesis by (simp add: py_round_def)
qed

lemma py_round_0 [simp]: "py_round n 0 = 0"
  using py_round_of_int [of n 0] by simp

lemma py_round_1 [simp]: "py_round n 1 = 1"
  using py_round_of_int [of n 1] by simp

lemma py_round_ge5: "5 \<le> x \<Longrightarrow> 5 \<le> py_round 2 x"
  using py_round_mono [of 5 x 2] py_round_of_int [of 2 5] by simp

lemma strength_multipliers_range: "0 \<le> strength_multipliers s \<and> strength_multipliers s \<le> 1"
  by (cases s) simp_all

lemma confidence_range:
  assumes "0 \<le> lag_s" and "0 \<le> prob_diff" and "0 \<le> oc" and "oc \<le> 1" and "0 \<le> liq"
  shows "0 \<le> calculate_confidence lag_s prob_diff oc liq"
    and "calculate_confidence lag_s prob_diff oc liq \<le> 1"
proof -
  define a where "a = min 1 (lag_s / 30)"
  define b where "b = min 1 (prob_diff / (2 / 10))"
  define c where "c = min 1 (liq / 10000)"
  define raw where "raw = a * (3 / 10) + b * (35 / 100) + oc * (2 / 10) + c * (15 / 100)"
  have a: "0 \<le> a" "a \<le> 1" using assms(1) by (simp_all add: a_def)
  have b: "0 \<le> b" "b \<le> 1" using assms(2) by (simp_all add: b_def)
  have c: "0 \<le> c" "c \<le> 1" using assms(5) by (simp_all add: c_def)
  have raw: "0 \<le> raw" "raw \<le> 1"
    using a b c assms(3,4) by (simp_all add: raw_def)
  have eq: "calculate_confidence lag_s prob_diff oc liq = py_round 3 raw"
    by (simp add: calculate_confidence_def Let_def raw_def a_def b_def c_def)
  show "0 \<le> calculate_confidence lag_s prob_diff oc liq"
    unfolding eq using py_round_mono [OF raw(1), of 3] by simp
  show "calculate_confidence lag_s prob_diff oc liq \<le> 1"
    unfolding eq using py_round_mono [OF raw(2), of 3] by simp
qed

lemma position_size_range:
  assumes "0 \<le> conf" and "conf \<le> 1" and "0 \<le> liq" and "0 \<le> mps"
  shows "0 \<le> calculate_position_size mps conf s liq"
    and "calculate_position_size mps conf s liq \<le> py_round 2 mps"
proof -
  define raw where "raw = min (mps * conf * strength_multipliers s) (liq * (1 / 10))"
  have m: "0 \<le> strength_multipliers s" "strength_multipliers s \<le> 1"
    using strength_multipliers_range [of s] by simp_all
  have p0: "0 \<le> mps * conf" using assms by simp
  have p1: "mps * conf \<le> mps" using assms mult_left_le by blast
  have q0: "0 \<le> mps * conf * strength_multipliers s" using p0 m(1) by simp
  have q1: "mps * conf * strength_multipliers s \<le> mps"
    using mult_left_le [OF m(2) p0] p1 by linarith
  have raw: "0 \<le> raw" "raw \<le> mps" using q0 q1 assms(3) by (simp_all add: raw_def)
  have eq: "calculate_position_size mps conf s liq = py_round 2 raw"
    by (simp add: calculate_position_size_def Let_def raw_def)
  show "0 \<le> calculate_position_size mps conf s liq"
    unfolding eq using py_round_mono [OF raw(1), of 2] by simp
  show "calculate_position_size mps conf s liq \<le> py_round 2 mps"
    unfolding eq by (rule py_round_mono [OF raw(2)])
qed

text \<open>
  C5 (as stated, refuted). The claim covers every input combination. The oracle factor is
  used unclamped, so an oracle confidence of 2 gives a confidence of 1.2; the size is
  rounded to cents after the caps, so with a maximum position size of 99.996 and full
  confidence the recommended size is 100.00, above the maximum; and a negative liquidity
  gives a negative size.
\<close>

theorem scoring_range_counterexample:
  "calculate_confidence 30 (2 / 10) 2 10000 = 12 / 10
   \<and> \<not> calculate_confidence 30 (2 / 10) 2 10000 \<le> 1
   \<and> calculate_confidence 30 (2 / 10) 1 10000 = 1
   \<and> calculate_position_size (99996 / 1000) 1 VERY_STRONG 10000 = 100
   \<and> \<not> calculate_position_size (99996 / 1000) 1 VERY_STRONG 10000 \<le> 99996 / 1000
   \<and> calculate_position_size 100 1 WEAK (- 50) = - 5"
  by (simp add: calculate_confidence_def calculate_position_size_def py_round_def
      py_round_int_def Let_def)

text \<open>
  C5 (amended). For a non-negative lag and probability difference, an oracle confidence in
  \<open>[0, 1]\<close>, a non-negative liquidity and a non-negative maximum position size, the
  confidence lies in \<open>[0, 1]\<close> and the recommended size lies between 0 and the maximum
  position size rounded to cents (which is the maximum itself whenever that is a whole
  number of cents, as the default 100.0 is), for every strength.
\<close>

theorem scoring_range:
  assumes "0 \<le> lag_s" and "0 \<le> prob_diff" and "0 \<le> oc" and "oc \<le> 1"
    and "0 \<le> liq" and "0 \<le> mps"
  shows "0 \<le> calculate_confidence lag_s prob_diff oc liq
         \<and> calculate_confidence lag_s prob_diff oc liq \<le> 1
         \<and> 0 \<le> calculate_position_size mps (calculate_confidence lag_s prob_diff oc liq) s liq
         \<and> calculate_position_size mps (calculate_confidence lag_s prob_diff oc liq) s liq
             \<le> py_round 2 mps"
proof -
  have c: "0 \<le> calculate_confidence lag_s prob_diff oc liq"
      "calculate_confidence lag_s prob_diff oc liq \<le> 1"
    using confidence_range [OF assms(1-5)] by simp_all
  show ?thesis
    using c position_size_range [OF c assms(5,6), of s] by simp
qed

theorem scoring_range_witness:
  "calculate_confidence 12 (8 / 100) (95 / 100) 4000 = 51 / 100
   \<and> calculate_position_size 100 (calculate_confidence 12 (8 / 100) (95 / 100) 4000)
        MODERATE 4000 = 255 / 10
   \<and> calculate_position_size 100 (calculate_confidence 12 (8 / 100) (95 / 100) 4000)
        MODERATE 4000 \<le> py_round 2 100"
proof (intro conjI)
  show c1: "calculate_confidence 12 (8 / 100) (95 / 100) 4000 = 51 / 100"
    by (simp add: calculate_confidence_def py_round_def py_round_int_def Let_def)
  have c2: "calculate_position_size 100 (51 / 100) MODERATE 4000 = 255 / 10"
    by (simp add: calculate_position_size_def py_round_def py_round_int_def Let_def)
  show "calculate_position_size 100 (calculate_confidence 12 (8 / 100) (95 / 100) 4000)
          MODERATE 4000 = 255 / 10"
    by (simp only: c1 c2)
  show "calculate_position_size 100 (calculate_confidence 12 (8 / 100) (95 / 100) 4000)
          MODERATE 4000 \<le> py_round 2 100"
    using scoring_range [of 12 "8 / 100" "95 / 100" 4000 100 MODERATE] by simp
qed

section \<open>Signal scoring: the minimum size\<close>

lemma yes_btc: "get_yes_outcome (btc_market liq)
  = Some \<lparr>outcome_id = ''o1'', mo_token_id = ''t1'', outcome = ''Yes'', mo_price = 1 / 2, order_book = None\<rparr>"
  by (simp add: get_yes_outcome_def btc_market_def lower_def lower_char_def)

lemma implied_btc: "get_implied_price (btc_market liq) = Some 100000"
  unfolding get_implied_price_def yes_btc by (simp add: btc_market_def)

lemma btc_fields:
  "price_threshold (btc_market liq) = Some 100000"
  "liquidity (btc_market liq) = liq"
  "market_id (btc_market liq) = ''m1''"
  by (simp_all add: btc_market_def)

lemma analyze_lag_btc:
  "fst (analyze_lag act now self symb (Some oracle) (Some (btc_market liq)))
     = Some (build_signal now self symb oracle (btc_market liq) 100000 100000
          \<lparr>outcome_id = ''o1'', mo_token_id = ''t1'', outcome = ''Yes'', mo_price = 1 / 2,
            order_book = None\<rparr>)"
  by (simp add: analyze_lag_def implied_btc yes_btc btc_fields Let_def)

lemma summary_btc:
  "signal_summary (build_signal 0 new_strategy ''BTC'' (obs CHAINLINK_SCRAPE 102000 0)
      (btc_market 40) 100000 100000
      \<lparr>outcome_id = ''o1'', mo_token_id = ''t1'', outcome = ''Yes'', mo_price = 1 / 2,
        order_book = None\<rparr>) = (BUY_YES, VERY_STRONG, 701 / 1000, 4)"
  unfolding build_signal_def classify_def calculate_confidence_def calculate_position_size_def
    calculate_expected_profit_def py_round_def py_round_int_def Let_def signal_summary_def
  by (simp add: btc_fields obs_def new_strategy_def)


text \<open>
  C6 (as stated, refuted). The scoring path has no minimum floor. With the default
  strategy, an oracle price of 102000 against a threshold of 100000 and a market liquidity
  of 40, \<open>analyze_lag\<close> returns a very strong BUY\_YES signal of confidence 0.701 whose
  recommended size is 4: below 5 and not zero. \<open>_calculate_position_size\<close> returns 2.5
  for a confidence of 0.1 on a weak signal.
\<close>

theorem size_floor_counterexample:
  "map_option signal_summary
     (fst (analyze_lag (is_actionable (6 / 10)) 0 new_strategy ''BTC''
             (Some (obs CHAINLINK_SCRAPE 102000 0)) (Some (btc_market 40))))
     = Some (BUY_YES, VERY_STRONG, 701 / 1000, 4)
   \<and> calculate_position_size 100 (1 / 10) WEAK 10000 = 5 / 2"
proof (intro conjI)
  show "map_option signal_summary
     (fst (analyze_lag (is_actionable (6 / 10)) 0 new_strategy ''BTC''
             (Some (obs CHAINLINK_SCRAPE 102000 0)) (Some (btc_market 40))))
     = Some (BUY_YES, VERY_STRONG, 701 / 1000, 4)"
    by (simp only: analyze_lag_btc summary_btc option.map)
  show "calculate_position_size 100 (1 / 10) WEAK 10000 = 5 / 2"
    by (simp add: calculate_position_size_def py_round_def py_round_int_def Let_def)
qed

lemma adjust_position_size_eq:
  "adjust_position_size rm requested conf liq
     = (if adjusted_size rm requested conf liq < 5 then 0
        else py_round 2 (adjusted_size rm requested conf liq))"
  by (simp add: adjust_position_size_def adjusted_size_def Let_def)

lemma build_signal_size:
  "recommended_size (build_signal now self symb orc market mi th y)
     = py_round 2
         (min (max_position_size self
                 * sg_confidence (build_signal now self symb orc market mi th y)
                 * strength_multipliers (strength (build_signal now self symb orc market mi th y)))
              (liquidity market * (1 / 10)))"
  by (simp add: build_signal_def calculate_position_size_def Let_def)

lemma analyze_lag_build:
  assumes "fst (analyze_lag act now self symb orc (Some market)) = Some sg"
  shows "\<exists>mi th y. sg = build_signal now self symb (the orc) market mi th y"
  using assms
  by (auto simp: analyze_lag_def Let_def split: option.splits if_splits)

text \<open>
  C6 (amended). The scoring path applies no floor: the recommended size of every signal
  that \<open>analyze_lag\<close> returns is the maximum size times the signal's confidence times
  the multiplier of its strength, capped at a tenth of the liquidity and rounded to cents,
  also when that is below 5. The minimum of 5 is applied by
  \<open>RiskManager.adjust_position_size\<close> only: it returns zero exactly when the adjusted
  size is below 5, and otherwise the adjusted size rounded to cents, which is at least 5.
\<close>

theorem size_floor_only_in_adjust:
  "(adjust_position_size rm requested conf liq = 0
      \<longleftrightarrow> adjusted_size rm requested conf liq < 5)
   \<and> (5 \<le> adjusted_size rm requested conf liq
        \<longrightarrow> adjust_position_size rm requested conf liq
              = py_round 2 (adjusted_size rm requested conf liq)
            \<and> 5 \<le> adjust_position_size rm requested conf liq)
   \<and> (fst (analyze_lag act now self symb orc (Some market)) = Some sg
        \<longrightarrow> recommended_size sg
              = py_round 2
                  (min (max_position_size self * sg_confidence sg
                          * strength_multipliers (strength sg))
                       (liquidity market * (1 / 10))))"
proof (intro conjI impI)
  show "adjust_position_size rm requested conf liq = 0
      \<longleftrightarrow> adjusted_size rm requested conf liq < 5"
  proof (cases "adjusted_size rm requested conf liq < 5")
    case True
    then show ?thesis by (simp add: adjust_position_size_eq)
  next
    case False
    then have "5 \<le> py_round 2 (adjusted_size rm requested conf liq)"
      by (intro py_round_ge5) simp
    then show ?thesis using False by (simp add: adjust_position_size_eq)
  qed
next
  assume h: "5 \<le> adjusted_size rm requested conf liq"
  then show "adjust_position_size rm requested conf liq
              = py_round 2 (adjusted_size rm requested conf liq)"
    by (simp add: adjust_position_size_eq)
  then show "5 \<le> adjust_position_size rm requested conf liq"
    using py_round_ge5 [OF h] by simp
next
  assume "fst (analyze_lag act now self symb orc (Some market)) = Some sg"
  then obtain mi th y where "sg = build_signal now self symb (the orc) market mi th y"
    using analyze_lag_build by blast
  then show "recommended_size sg
              = py_round 2
                  (min (max_position_size self * sg_confidence sg
                          * strength_multipliers (strength sg))
                       (liquidity market * (1 / 10)))"
    by (simp only: build_signal_size)
qed

lemma adjusted_examples:
  "adjusted_size (new_manager default_limits 0) 100 (4 / 100) 10000 = 4"
  "adjusted_size (new_manager default_limits 0) 100 (1 / 2) 10000 = 50"
  by (simp_all add: adjusted_size_def new_manager_def default_limits_def new_state_def)

theorem size_floor_only_in_adjust_witness:
  "adjusted_size (new_manager default_limits 0) 100 (4 / 100) 10000 = 4
   \<and> adjust_position_size (new_manager default_limits 0) 100 (4 / 100) 10000 = 0
   \<and> adjusted_size (new_manager default_limits 0) 100 (1 / 2) 10000 = 50
   \<and> adjust_position_size (new_manager default_limits 0) 100 (1 / 2) 10000 = 50
   \<and> (\<exists>sg. fst (analyze_lag (is_actionable (6 / 10)) 0 new_strategy ''BTC''
                   (Some (obs CHAINLINK_SCRAPE 102000 0)) (Some (btc_market 40))) = Some sg
          \<and> signal_summary sg = (BUY_YES, VERY_STRONG, 701 / 1000, 4)
          \<and> recommended_size sg
              = py_round 2 (min (max_position_size new_strategy * sg_confidence sg
                                   * strength_multipliers (strength sg))
                                (liquidity (btc_market 40) * (1 / 10))))"
proof -
  let ?rm = "new_manager default_limits 0"
  note a = adjusted_examples
  have r: "py_round 2 50 = 50" using py_round_of_int [of 2 50] by simp
  have z: "adjust_position_size ?rm 100 (4 / 100) 10000 = 0"
    using size_floor_only_in_adjust [of ?rm 100 "4 / 100" 10000, THEN conjunct1]
    unfolding a by simp
  have f: "adjust_position_size ?rm 100 (1 / 2) 10000 = 50"
    using size_floor_only_in_adjust [of ?rm 100 "1 / 2" 10000, THEN conjunct2, THEN conjunct1]
    unfolding a r by simp
  let ?sg = "build_signal 0 new_strategy ''BTC'' (obs CHAINLINK_SCRAPE 102000 0)
      (btc_market 40) 100000 100000
      \<lparr>outcome_id = ''o1'', mo_token_id = ''t1'', outcome = ''Yes'', mo_price = 1 / 2,
        order_book = None\<rparr>"
  have e: "fst (analyze_lag (is_actionable (6 / 10)) 0 new_strategy ''BTC''
                   (Some (obs CHAINLINK_SCRAPE 102000 0)) (Some (btc_market 40))) = Some ?sg"
    by (rule analyze_lag_btc)
  have s: "recommended_size ?sg
              = py_round 2 (min (max_position_size new_strategy * sg_confidence ?sg
                                   * strength_multipliers (strength ?sg))
                                (liquidity (btc_market 40) * (1 / 10)))"
    using size_floor_only_in_adjust [of _ _ _ _ "is_actionable (6 / 10)" 0 new_strategy "''BTC''"
        "Some (obs CHAINLINK_SCRAPE 102000 0)" "btc_market 40" ?sg] e by blast
  show ?thesis using a z f e s summary_btc by blast
qed

section \<open>Signal scoring: what the signal depends on\<close>







section \<open>Price lag: when a reading is returned\<close>

lemma manager_at_prices:
  "get_oracle_price (manager_at ov ot iv it) ''BTC'' = Some (obs CHAINLINK_SCRAPE ov ot)"
  "get_polymarket_price (manager_at ov ot iv it) ''BTC'' = Some (obs POLYMARKET iv it)"
  by (simp_all add: get_oracle_price_def get_polymarket_price_def manager_at_def update_def
      new_feed_def Let_def)

lemma manager_at_feeds:
  "oracle_feeds (manager_at ov ot iv it) ''BTC''
     = Some (update (obs CHAINLINK_SCRAPE ov ot) (new_feed ''BTC''))"
  "polymarket_feeds (manager_at ov ot iv it) ''BTC''
     = Some (update (obs POLYMARKET iv it) (new_feed ''BTC''))"
  by (simp_all add: manager_at_def)

lemma update_current: "current_price (update pd f) = Some pd"
  by (simp add: update_def Let_def)

text \<open>
  C2 (as stated, refuted). With both observations about a thousand seconds old, far beyond
  the 30 second bound, \<open>get_price_lag\<close> still returns a reading and \<open>_check_lag\<close> still
  hands it to the callbacks; with an implied value of 1e-7, below the epsilon, the
  division is carried out and a reading is returned; with an implied value of zero the
  division raises \<open>ZeroDivisionError\<close>.
\<close>

theorem price_lag_stale_counterexample:
  "is_stale 1000 (obs CHAINLINK_SCRAPE 100800 12) 30
   \<and> is_stale 1000 (obs POLYMARKET 100000 0) 30
   \<and> get_oracle_price (manager_at 100800 12 100000 0) ''BTC''
       = Some (obs CHAINLINK_SCRAPE 100800 12)
   \<and> get_polymarket_price (manager_at 100800 12 100000 0) ''BTC''
       = Some (obs POLYMARKET 100000 0)
   \<and> get_price_lag (manager_at 100800 12 100000 0) ''BTC''
       = Inr (Some \<lparr>lag_symbol = ''BTC'', oracle_price = 100800, polymarket_price = 100000,
                     oracle_timestamp = 12, polymarket_timestamp = 0, lag_seconds = 12,
                     price_difference_pct = 8 / 10\<rparr>)
   \<and> check_lag (manager_at 100800 12 100000 0) ''BTC''
       = Inr (Some \<lparr>lag_symbol = ''BTC'', oracle_price = 100800, polymarket_price = 100000,
                     oracle_timestamp = 12, polymarket_timestamp = 0, lag_seconds = 12,
                     price_difference_pct = 8 / 10\<rparr>)
   \<and> get_price_lag (manager_at 100 12 (1 / 10000000) 0) ''BTC''
       = Inr (Some \<lparr>lag_symbol = ''BTC'', oracle_price = 100,
                     polymarket_price = 1 / 10000000,
                     oracle_timestamp = 12, polymarket_timestamp = 0, lag_seconds = 12,
                     price_difference_pct = 99999999900\<rparr>)
   \<and> get_price_lag (manager_at 100 12 0 0) ''BTC'' = Inl ZeroDivisionError"
  by (simp add: get_price_lag_def check_lag_def manager_at_prices manager_at_feeds
      update_current make_lag_def is_profitable_def is_stale_def age_seconds_def obs_def)

text \<open>
  C2 (amended). \<open>get_price_lag\<close> returns \<open>None\<close> exactly when the oracle or the implied
  observation is absent, and then \<open>_check_lag\<close> notifies nobody. When both are present
  and the implied value is not zero, whatever their age and however small the implied
  value, it returns the reading with \<open>lag_seconds = |oracle_time - implied_time|\<close> and
  \<open>pct_diff = (oracle - implied) / implied * 100\<close>.
\<close>

theorem price_lag_none_iff_absent:
  "(get_price_lag pm symb = Inr None
      \<longleftrightarrow> get_oracle_price pm symb = None \<or> get_polymarket_price pm symb = None)
   \<and> (get_oracle_price pm symb = None \<or> get_polymarket_price pm symb = None
        \<longrightarrow> check_lag pm symb = Inr None)
   \<and> (\<forall>orc pmk.
         get_oracle_price pm symb = Some orc
         \<and> get_polymarket_price pm symb = Some pmk
         \<and> pd_price pmk \<noteq> 0
         \<longrightarrow> (\<exists>lag. get_price_lag pm symb = Inr (Some lag)
                \<and> lag_seconds lag = \<bar>pd_timestamp orc - pd_timestamp pmk\<bar>
                \<and> price_difference_pct lag
                    = (pd_price orc - pd_price pmk) / pd_price pmk * 100))"
proof (intro conjI allI impI)
  show "get_price_lag pm symb = Inr None
      \<longleftrightarrow> get_oracle_price pm symb = None \<or> get_polymarket_price pm symb = None"
    by (auto simp: get_price_lag_def make_lag_def Let_def split: option.splits)
next
  assume "get_oracle_price pm symb = None \<or> get_polymarket_price pm symb = None"
  then show "check_lag pm symb = Inr None"
    by (auto simp: check_lag_def get_oracle_price_def get_polymarket_price_def
        split: option.splits)
next
  fix orc pmk
  assume "get_oracle_price pm symb = Some orc
         \<and> get_polymarket_price pm symb = Some pmk
         \<and> pd_price pmk \<noteq> 0"
  then show "\<exists>lag. get_price_lag pm symb = Inr (Some lag)
                \<and> lag_seconds lag = \<bar>pd_timestamp orc - pd_timestamp pmk\<bar>
                \<and> price_difference_pct lag
                    = (pd_price orc - pd_price pmk) / pd_price pmk * 100"
    by (simp add: get_price_lag_def make_lag_def Let_def)
qed

theorem price_lag_none_iff_absent_witness:
  "get_oracle_price (manager_at 100800 12 100000 0) ''BTC''
     = Some (obs CHAINLINK_SCRAPE 100800 12)
   \<and> get_polymarket_price (manager_at 100800 12 100000 0) ''BTC''
     = Some (obs POLYMARKET 100000 0)
   \<and> pd_price (obs POLYMARKET 100000 0) \<noteq> 0
   \<and> get_price_lag (manager_at 100800 12 100000 0) ''BTC'' \<noteq> Inr None
   \<and> (\<exists>lag. get_price_lag (manager_at 100800 12 100000 0) ''BTC'' = Inr (Some lag)
         \<and> lag_seconds lag = 12 \<and> price_difference_pct lag = 8 / 10)"
proof -
  let ?pm = "manager_at 100800 12 100000 0"
  have o: "get_oracle_price ?pm ''BTC'' = Some (obs CHAINLINK_SCRAPE 100800 12)"
    and p: "get_polymarket_price ?pm ''BTC'' = Some (obs POLYMARKET 100000 0)"
    by (simp_all only: manager_at_prices)
  have nz: "pd_price (obs POLYMARKET 100000 0) \<noteq> 0" by (simp add: obs_def)
  have v: "\<bar>pd_timestamp (obs CHAINLINK_SCRAPE 100800 12) - pd_timestamp (obs POLYMARKET 100000 0)\<bar> = 12"
    "(pd_price (obs CHAINLINK_SCRAPE 100800 12) - pd_price (obs POLYMARKET 100000 0))
       / pd_price (obs POLYMARKET 100000 0) * 100 = 8 / 10"
    by (simp_all add: obs_def)
  from price_lag_none_iff_absent [of ?pm "''BTC''"]
  have a: "get_price_lag ?pm ''BTC'' \<noteq> Inr None" using o p by simp
  from price_lag_none_iff_absent [of ?pm "''BTC''"] o p nz
  have "\<exists>lag. get_price_lag ?pm ''BTC'' = Inr (Some lag)
         \<and> lag_seconds lag = \<bar>pd_timestamp (obs CHAINLINK_SCRAPE 100800 12)
                                - pd_timestamp (obs POLYMARKET 100000 0)\<bar>
         \<and> price_difference_pct lag
             = (pd_price (obs CHAINLINK_SCRAPE 100800 12) - pd_price (obs POLYMARKET 100000 0))
                 / pd_price (obs POLYMARKET 100000 0) * 100"
    by blast
  then have b: "\<exists>lag. get_price_lag ?pm ''BTC'' = Inr (Some lag)
         \<and> lag_seconds lag = 12 \<and> price_difference_pct lag = 8 / 10"
    by (simp only: v)
  show ?thesis using o p nz a b by blast
qed

section \<open>Position ledger\<close>

lemma close_position_absent:
  "open_positions pm pid = None \<Longrightarrow> close_position now pm pid exit_price = (None, pm)"
  by (simp add: close_position_def)

lemma close_position_removes:
  "open_positions (snd (close_position now pm pid exit_price)) pid = None"
  by (simp add: close_position_def Let_def split: option.splits)

text \<open>
  C8. For every ledger and every position id that is not open, \<open>close_position\<close> returns
  \<open>None\<close> and the ledger is unchanged: open positions, closed history and statistics.
  An id that has just been closed is no longer open, so closing it again returns \<open>None\<close>
  and changes nothing.
\<close>

theorem close_position_not_found:
  "(open_positions pm pid = None
      \<longrightarrow> close_position now pm pid exit_price = (None, pm))
   \<and> close_position now' (snd (close_position now pm pid exit_price)) pid exit_price'
       = (None, snd (close_position now pm pid exit_price))"
  using close_position_absent [OF close_position_removes]
  by (simp add: close_position_absent)

theorem close_position_not_found_witness:
  "open_positions new_position_manager ''p9'' = None
   \<and> close_position 5 new_position_manager ''p9'' (6 / 10) = (None, new_position_manager)
   \<and> map_option snd
       (fst (close_position 1
          (snd (open_position 0 ''p1'' new_position_manager (proposal 10 (2 / 100) (7 / 10)) (1 / 2)))
          ''p1'' (6 / 10))) = Some 1
   \<and> close_position 2
       (snd (close_position 1
          (snd (open_position 0 ''p1'' new_position_manager (proposal 10 (2 / 100) (7 / 10)) (1 / 2)))
          ''p1'' (6 / 10)))
       ''p1'' (7 / 10)
     = (None,
        snd (close_position 1
          (snd (open_position 0 ''p1'' new_position_manager (proposal 10 (2 / 100) (7 / 10)) (1 / 2)))
          ''p1'' (6 / 10)))"
proof -
  let ?pm1 = "snd (open_position 0 ''p1'' new_position_manager (proposal 10 (2 / 100) (7 / 10)) (1 / 2))"
  have h: "open_positions new_position_manager ''p9'' = None"
    by (simp add: new_position_manager_def)
  have c: "map_option snd (fst (close_position 1 ?pm1 ''p1'' (6 / 10))) = Some 1"
    by (simp add: close_position_def open_position_def new_position_manager_def proposal_def
        unrealized_pnl_def Let_def)
  show ?thesis
    using h c close_position_not_found [of new_position_manager "''p9''" 5 "6 / 10"]
      close_position_not_found [of ?pm1 "''p1''" 1 "6 / 10" 2 "7 / 10"]
    by blast
qed

section \<open>Risk manager\<close>

lemma check_daily_reset_fields [simp]:
  "limits (check_daily_reset now rm) = limits rm"
  "positions_count (state (check_daily_reset now rm)) = positions_count (state rm)"
  "current_exposure_usd (state (check_daily_reset now rm)) = current_exposure_usd (state rm)"
  "last_loss_time (state (check_daily_reset now rm)) = last_loss_time (state rm)"
  "in_cooldown (state (check_daily_reset now rm)) = in_cooldown (state rm)"
  by (simp_all add: check_daily_reset_def reset_daily_def)

lemma can_trade_fields [simp]:
  "limits (snd (can_trade now rm)) = limits rm"
  "positions_count (state (snd (can_trade now rm))) = positions_count (state rm)"
  "current_exposure_usd (state (snd (can_trade now rm))) = current_exposure_usd (state rm)"
  "last_loss_time (state (snd (can_trade now rm))) = last_loss_time (state rm)"
  by (simp_all add: can_trade_def Let_def split: option.splits)

lemma validate_trade_snd: "snd (validate_trade now rm a) = snd (can_trade now rm)"
  by (simp add: validate_trade_def split: prod.splits)

lemma risk_step_limits [simp]: "limits (risk_step now c rm) = limits rm"
  by (cases c) (simp_all add: validate_trade_snd on_trade_opened_def on_trade_closed_def Let_def)

lemma run_calls_limits [simp]: "limits (run_calls rm cs) = limits rm"
  by (induction cs arbitrary: rm) auto

subsection \<open>Counters\<close>

lemma on_trade_closed_nonneg:
  "0 \<le> positions_count (state (on_trade_closed now rm pnl sz))"
  "0 \<le> current_exposure_usd (state (on_trade_closed now rm pnl sz))"
  by (simp_all add: on_trade_closed_def Let_def)

lemma risk_step_nonneg:
  assumes "opened_sizes_ok [(now, c)]"
    and "0 \<le> positions_count (state rm)" and "0 \<le> current_exposure_usd (state rm)"
  shows "0 \<le> positions_count (state (risk_step now c rm))
         \<and> 0 \<le> current_exposure_usd (state (risk_step now c rm))"
  using assms
  by (cases c) (simp_all add: validate_trade_snd on_trade_opened_def on_trade_closed_nonneg Let_def)

lemma opened_sizes_ok_Cons:
  "opened_sizes_ok ((t, c) # cs) \<longleftrightarrow> opened_sizes_ok [(t, c)] \<and> opened_sizes_ok cs"
  by (cases c) simp_all

lemma run_calls_nonneg:
  assumes "opened_sizes_ok cs"
    and "0 \<le> positions_count (state rm)" and "0 \<le> current_exposure_usd (state rm)"
  shows "0 \<le> positions_count (state (run_calls rm cs))
         \<and> 0 \<le> current_exposure_usd (state (run_calls rm cs))"
  using assms
proof (induction cs arbitrary: rm)
  case Nil
  then show ?case by simp
next
  case (Cons tc cs)
  obtain t c where tc: "tc = (t, c)" by (cases tc)
  from Cons.prems(1) have ok: "opened_sizes_ok [(t, c)]" "opened_sizes_ok cs"
    using opened_sizes_ok_Cons [of t c cs] by (simp_all add: tc)
  have "0 \<le> positions_count (state (risk_step t c rm))
        \<and> 0 \<le> current_exposure_usd (state (risk_step t c rm))"
    by (rule risk_step_nonneg [OF ok(1) Cons.prems(2,3)])
  then show ?case
    using Cons.IH [OF ok(2), of "risk_step t c rm"] by (simp add: tc)
qed

text \<open>
  C10 (as stated, refuted). \<open>on_trade_opened\<close> adds the size it is given without a
  clamp: opening with a size of -1 on a fresh manager leaves an exposure of -1.
\<close>

theorem exposure_negative_counterexample:
  "current_exposure_usd (state (run_calls (new_manager default_limits 0)
       [(1, TradeOpened (- 1))])) = - 1
   \<and> current_exposure_usd (state (run_calls (new_manager default_limits 0)
       [(1, TradeOpened (- 1))])) < 0"
  by (simp add: new_manager_def new_state_def on_trade_opened_def Let_def)

text \<open>
  C10 (amended). For every sequence of calls on a fresh manager in which no position is
  opened with a negative size, the position count and the exposure never become negative;
  and \<open>on_trade_closed\<close> clamps both at zero from any state, so closing more than was
  opened leaves them at zero or above.
\<close>

theorem counters_never_negative:
  assumes "opened_sizes_ok cs"
  shows "0 \<le> positions_count (state (run_calls (new_manager lms t0) cs))
         \<and> 0 \<le> current_exposure_usd (state (run_calls (new_manager lms t0) cs))
         \<and> 0 \<le> positions_count (state (on_trade_closed now rm pnl sz))
         \<and> 0 \<le> current_exposure_usd (state (on_trade_closed now rm pnl sz))"
proof -
  have "0 \<le> positions_count (state (new_manager lms t0))"
    "0 \<le> current_exposure_usd (state (new_manager lms t0))"
    by (simp_all add: new_manager_def new_state_def)
  from run_calls_nonneg [OF assms this] on_trade_closed_nonneg [of now rm pnl sz]
  show ?thesis by simp
qed

theorem counters_never_negative_witness:
  "opened_sizes_ok [(1, TradeOpened 10), (2, TradeClosed (- 6) 25), (3, TradeClosed 4 10)]
   \<and> positions_count (state (run_calls (new_manager default_limits 0)
        [(1, TradeOpened 10), (2, TradeClosed (- 6) 25), (3, TradeClosed 4 10)])) = 0
   \<and> current_exposure_usd (state (run_calls (new_manager default_limits 0)
        [(1, TradeOpened 10), (2, TradeClosed (- 6) 25), (3, TradeClosed 4 10)])) = 0"
proof -
  let ?cs = "[(1, TradeOpened 10), (2, TradeClosed (- 6) 25), (3, TradeClosed 4 10)]"
  have h: "opened_sizes_ok ?cs" by simp
  have v: "positions_count (state (run_calls (new_manager default_limits 0) ?cs)) = 0"
    "current_exposure_usd (state (run_calls (new_manager default_limits 0) ?cs)) = 0"
    by (simp_all add: new_manager_def new_state_def on_trade_opened_def on_trade_closed_def
        Let_def)
  show ?thesis
    using h v counters_never_negative [OF h, of default_limits 0] by blast
qed

subsection \<open>Order of the checks\<close>

lemma can_trade_spec:
  "fst (can_trade now rm)
     = (case find (check_fails (limits rm) (state (check_daily_reset now rm)) now a)
              [DailyHalt, Concurrency, Cooldown] of
          None \<Rightarrow> (True, OK)
        | Some c \<Rightarrow> (False, check_reason (limits rm) (state (check_daily_reset now rm)) now a c))"
  by (auto simp: can_trade_def Let_def split: option.splits)

lemma validate_trade_fst:
  "fst (validate_trade now rm a)
     = (if \<not> fst (fst (can_trade now rm)) then fst (can_trade now rm)
        else if ta_size a > max_position_size_usd (limits rm)
        then (False, PositionSizeExceeds (ta_size a) (max_position_size_usd (limits rm)))
        else if max_slippage a > max_slippage_pct (limits rm) / 100
        then (False, SlippageExceeds (max_slippage a * 100) (max_slippage_pct (limits rm)))
        else if sg_confidence (ta_signal a) < 1 / 2
        then (False, ConfidenceTooLow (sg_confidence (ta_signal a)))
        else (True, OK))"
proof -
  obtain ok rsn rm' where c: "can_trade now rm = ((ok, rsn), rm')"
    by (metis prod.exhaust)
  have "limits rm' = limits rm"
    using can_trade_fields(1) [of now rm] by (simp add: c)
  then show ?thesis
    by (simp add: validate_trade_def c)
qed

lemma validate_trade_spec:
  "fst (validate_trade now rm a)
     = approve_spec (limits rm) (state (check_daily_reset now rm)) now a"
  unfolding validate_trade_fst can_trade_spec [of now rm a] approve_spec_def check_order_def
  by (auto split: option.splits)

lemma check_of_reason_check_reason [simp]:
  "check_of_reason (check_reason lms st now a c) = Some c"
  by (cases c) simp_all

lemma approve_spec_names_check:
  "check_of_reason (snd (approve_spec lms st now a)) = find (check_fails lms st now a) check_order"
  by (simp add: approve_spec_def split: option.splits)

lemma approve_spec_rejects_iff:
  "fst (approve_spec lms st now a) \<longleftrightarrow> find (check_fails lms st now a) check_order = None"
  by (simp add: approve_spec_def split: option.splits)

text \<open>
  C7. \<open>validate_trade\<close> is the approval of the specification: the checks daily halt,
  concurrency, cooldown, position size, slippage, signal confidence run in this order on
  the state after the lazy daily reset, the first that fails decides, and the reason
  returned names exactly that check. A proposal of size 150 against a limit of 100 is
  always rejected, whatever its confidence, and with the size reason whenever the three
  checks of \<open>can_trade\<close> pass.
\<close>

theorem validate_trade_check_order:
  "fst (validate_trade now rm a)
     = approve_spec (limits rm) (state (check_daily_reset now rm)) now a
   \<and> check_of_reason (snd (fst (validate_trade now rm a)))
       = find (check_fails (limits rm) (state (check_daily_reset now rm)) now a) check_order
   \<and> (ta_size a = 150 \<and> max_position_size_usd (limits rm) = 100
        \<longrightarrow> \<not> fst (fst (validate_trade now rm a))
            \<and> (fst (fst (can_trade now rm))
                 \<longrightarrow> snd (fst (validate_trade now rm a)) = PositionSizeExceeds 150 100))"
proof (intro conjI impI)
  show "fst (validate_trade now rm a)
     = approve_spec (limits rm) (state (check_daily_reset now rm)) now a"
    by (rule validate_trade_spec)
  show "check_of_reason (snd (fst (validate_trade now rm a)))
       = find (check_fails (limits rm) (state (check_daily_reset now rm)) now a) check_order"
    unfolding validate_trade_spec by (rule approve_spec_names_check)
next
  assume "ta_size a = 150 \<and> max_position_size_usd (limits rm) = 100"
  then show "\<not> fst (fst (validate_trade now rm a))"
    by (simp add: validate_trade_fst)
next
  assume "ta_size a = 150 \<and> max_position_size_usd (limits rm) = 100"
    and "fst (fst (can_trade now rm))"
  then show "snd (fst (validate_trade now rm a)) = PositionSizeExceeds 150 100"
    by (simp add: validate_trade_fst)
qed

theorem validate_trade_check_order_witness:
  "ta_size (proposal 150 (1 / 1000) (99 / 100)) = 150
   \<and> max_position_size_usd (limits (new_manager default_limits 0)) = 100
   \<and> fst (fst (can_trade 1 (new_manager default_limits 0)))
   \<and> fst (validate_trade 1 (new_manager default_limits 0) (proposal 150 (1 / 1000) (99 / 100)))
       = (False, PositionSizeExceeds 150 100)
   \<and> check_of_reason (snd (fst (validate_trade 1 (new_manager default_limits 0)
        (proposal 150 (1 / 1000) (99 / 100))))) = Some PositionSizeLimit"
proof -
  let ?rm = "new_manager default_limits 0"
  let ?a = "proposal 150 (1 / 1000) (99 / 100)"
  have h1: "ta_size ?a = 150" by (simp add: proposal_def)
  have h2: "max_position_size_usd (limits ?rm) = 100"
    by (simp add: new_manager_def default_limits_def)
  have h3: "fst (fst (can_trade 1 ?rm))"
    by (simp add: can_trade_def check_daily_reset_def new_manager_def new_state_def
        default_limits_def date_of_def day_floor_def Let_def)
  from validate_trade_check_order [of 1 ?rm ?a] h1 h2 h3
  have n: "\<not> fst (fst (validate_trade 1 ?rm ?a))"
    and r: "snd (fst (validate_trade 1 ?rm ?a)) = PositionSizeExceeds 150 100"
    by blast+
  have v: "fst (validate_trade 1 ?rm ?a) = (False, PositionSizeExceeds 150 100)"
    using n r by (metis prod.collapse)
  show ?thesis using h1 h2 h3 v by simp
qed

subsection \<open>Cooldown invariant and blocked states\<close>






subsection \<open>The day's pnl\<close>


lemma date_of_day_floor [simp]: "date_of (day_floor t) = date_of t"
proof -
  define f where "f = t - of_int \<lfloor>t\<rfloor>"
  define d where "d = \<lfloor>t / 86400\<rfloor>"
  have f: "0 \<le> f" "f < 1" by (simp_all add: f_def) linarith
  have "\<lfloor>(of_int d * 86400 + f) / 86400\<rfloor> = d"
  proof (rule floor_unique)
    show "of_int d \<le> (of_int d * 86400 + f) / 86400"
      using f by (simp add: field_simps)
    show "(of_int d * 86400 + f) / 86400 < of_int d + 1"
      using f by (simp add: field_simps)
  qed
  then show ?thesis
    by (simp add: date_of_def day_floor_def f_def d_def)
qed


lemma can_trade_daily [simp]:
  "daily_pnl (state (snd (can_trade now rm))) = daily_pnl (state (check_daily_reset now rm))"
  "day_start (state (snd (can_trade now rm))) = day_start (state (check_daily_reset now rm))"
  by (simp_all add: can_trade_def Let_def split: option.splits)


lemma pnl_inv_state:
  assumes "daily_pnl (state rm') = daily_pnl (state rm)"
    and "day_start (state rm') = day_start (state rm)"
  shows "pnl_inv pre rm' \<longleftrightarrow> pnl_inv pre rm"
  using assms by (simp add: pnl_inv_def)











lemma fresh_day_start: "day_start (state (new_manager lms 0)) = 0"
  by (simp add: new_manager_def new_state_def day_floor_def date_of_def)






text \<open>
  The hypothesis \<open>closes_after_reset\<close> cannot be dropped. \<open>on_trade_closed\<close> records a
  loss without running the daily reset that \<open>can_trade\<close> runs first. A loss of 60
  recorded at 00:05 of a new day, before any other call of that day, is added to the
  pnl of the day before; \<open>can_trade\<close> at 00:10 then resets the daily pnl to zero and
  approves, although the loss of the day, 60, has reached the default limit of 50.
\<close>

lemma close_while_reset_pending_example:
  "clock_ok 0 close_after_midnight
   \<and> last_clock 0 close_after_midnight \<le> 87000
   \<and> \<not> closes_after_reset (new_manager default_limits 0) close_after_midnight
   \<and> day_pnl (date_of 87000) close_after_midnight = - 60
   \<and> blocked default_limits
        (state (run_calls (new_manager default_limits 0) close_after_midnight))
        (day_pnl (date_of 87000) close_after_midnight) 87000
   \<and> daily_pnl (state (run_calls (new_manager default_limits 0) close_after_midnight)) = - 60
   \<and> fst (can_trade 87000 (run_calls (new_manager default_limits 0) close_after_midnight))
       = (True, OK)"
proof -
  have d: "date_of 86700 = 1" "date_of 87000 = 1" "date_of 0 = 0"
    by (simp_all add: date_of_def)
  have r: "run_calls (new_manager default_limits 0) close_after_midnight
     = \<lparr>limits = default_limits,
        state = \<lparr>daily_pnl = - 60, daily_trades = 1, daily_losses = 1,
                  current_exposure_usd = 0, last_loss_time = Some 86700, in_cooldown = True,
                  positions_count = 0, day_start = 0\<rparr>,
        trade_history = [\<lparr>tr_pnl = - 60, tr_position_size = 20, tr_timestamp = 86700,
                           tr_daily_pnl = - 60, tr_daily_trades = 1\<rparr>]\<rparr>"
    by (simp add: close_after_midnight_def new_manager_def new_state_def on_trade_opened_def
        on_trade_closed_def day_floor_def date_of_def Let_def)
  have p: "day_pnl (date_of 87000) close_after_midnight = - 60"
    by (simp add: close_after_midnight_def d)
  have n: "\<not> closes_after_reset (new_manager default_limits 0) close_after_midnight"
    by (simp add: close_after_midnight_def on_trade_opened_def fresh_day_start d Let_def)
  have b: "blocked default_limits
        (state (run_calls (new_manager default_limits 0) close_after_midnight))
        (day_pnl (date_of 87000) close_after_midnight) 87000"
    unfolding p r by (simp add: blocked_def default_limits_def)
  have c: "fst (can_trade 87000 (run_calls (new_manager default_limits 0) close_after_midnight))
       = (True, OK)"
    unfolding r
    by (simp add: can_trade_def check_daily_reset_def reset_daily_def d default_limits_def
        Let_def)
  have q: "daily_pnl (state (run_calls (new_manager default_limits 0) close_after_midnight))
             = - 60"
    unfolding r by simp
  have k: "clock_ok 0 close_after_midnight" "last_clock 0 close_after_midnight \<le> 87000"
    by (simp_all add: close_after_midnight_def)
  show ?thesis using k p n b c q by blast
qed

end
